theory Spec2Isabelle
  imports Main "HOL-Library.Sublist"
begin

section \<open>The HTML sanitizer of src/content/sanitizer/sanitizer.go\<close>

text \<open>
  Go strings are byte sequences, so a string is a \<open>char list\<close> here and a character is
  one byte. The sanitizer loops over the tokens of \<open>golang.org/x/net/html\<close>; the
  tokenizer is an external library, so a call of \<open>Sanitize\<close> is modelled on the stream
  the tokenizer delivers: the tokens it returns before \<open>ErrorToken\<close>, and the error
  \<open>tokenizer.Err()\<close> reports then.
\<close>

subsection \<open>Tokens\<close>

datatype TokenType =
  TextToken | StartTagToken | EndTagToken | SelfClosingTagToken | CommentToken | DoctypeToken

record Attribute =
  Key :: string
  Val :: string

record Token =
  Type :: TokenType
  Data :: string
  Attr :: "Attribute list"

text \<open>What \<open>tokenizer.Err()\<close> holds once \<open>Next\<close> has returned \<open>ErrorToken\<close>.\<close>

datatype TokenizerErr = EOF | OtherError

subsection \<open>What the package reads from files that are not part of the sources\<close>

text \<open>
  The allow lists (\<open>allowedTags\<close>, \<open>allowedSvgTags\<close>, \<open>allowedSvgFilters\<close>,
  \<open>allowedAttrs\<close>, \<open>allowedSvgAttrs\<close>, \<open>allowedURISchemes\<close>) are package variables
  declared in another file of the package, and \<open>AbsoluteUrl\<close> and \<open>URLDomain\<close> belong to the
  package \<open>htmlutil\<close>. None of them is among the sources, so every function below takes
  them as a parameter. \<open>ParseFloatOk s\<close> stands for \<open>strconv.ParseFloat(s, 32)\<close>
  returning no error.
\<close>

record Env =
  allowedTags :: "string set"
  allowedSvgTags :: "string set"
  allowedSvgFilters :: "string set"
  allowedAttrs :: "string \<rightharpoonup> string set"
  allowedSvgAttrs :: "string set"
  allowedURISchemes :: "string set"
  AbsoluteUrl :: "string \<Rightarrow> string \<Rightarrow> string"
  URLDomain :: "string \<Rightarrow> string"
  ParseFloatOk :: "string \<Rightarrow> bool"

subsection \<open>Library functions on strings\<close>

text \<open>\<open>html.EscapeString\<close>: the characters of \<open>escapedChars\<close> are replaced by entities.\<close>

definition escapeChar :: "char \<Rightarrow> string" where
  "escapeChar c =
     (if c = CHR ''&'' then ''&amp;''
      else if c = CHR 0x27 then ''&#39;''
      else if c = CHR ''<'' then ''&lt;''
      else if c = CHR ''>'' then ''&gt;''
      else if c = CHR 0x22 then ''&#34;''
      else if c = CHR 0x0D then ''&#13;''
      else [c])"

definition EscapeString :: "string \<Rightarrow> string" where
  "EscapeString s = concat (map escapeChar s)"

text \<open>\<open>strings.Join\<close>.\<close>

fun Join :: "string list \<Rightarrow> string \<Rightarrow> string" where
  "Join [] sep = []"
| "Join [x] sep = x"
| "Join (x # y # ys) sep = x @ sep @ Join (y # ys) sep"

text \<open>\<open>strings.Split(s, " ")\<close> for a separator of one byte: always at least one part.\<close>

fun splitByte :: "char \<Rightarrow> string \<Rightarrow> string \<Rightarrow> string list" where
  "splitByte sep cur [] = [cur]"
| "splitByte sep cur (c # cs) =
     (if c = sep then cur # splitByte sep [] cs else splitByte sep (cur @ [c]) cs)"

definition Split :: "string \<Rightarrow> char \<Rightarrow> string list" where
  "Split s sep = splitByte sep [] s"

text \<open>
  \<open>strings.TrimSpace\<close> removes the leading and trailing runes for which
  \<open>unicode.IsSpace\<close> holds; \<open>spaceRunes\<close> lists their UTF-8 encodings.
\<close>

definition spaceRunes :: "string list" where
  "spaceRunes =
     [[CHR 0x09], [CHR 0x0A], [CHR 0x0B], [CHR 0x0C], [CHR 0x0D], [CHR 0x20],
      [CHR 0xC2, CHR 0x85], [CHR 0xC2, CHR 0xA0], [CHR 0xE1, CHR 0x9A, CHR 0x80],
      [CHR 0xE2, CHR 0x80, CHR 0x80], [CHR 0xE2, CHR 0x80, CHR 0x81],
      [CHR 0xE2, CHR 0x80, CHR 0x82], [CHR 0xE2, CHR 0x80, CHR 0x83],
      [CHR 0xE2, CHR 0x80, CHR 0x84], [CHR 0xE2, CHR 0x80, CHR 0x85],
      [CHR 0xE2, CHR 0x80, CHR 0x86], [CHR 0xE2, CHR 0x80, CHR 0x87],
      [CHR 0xE2, CHR 0x80, CHR 0x88], [CHR 0xE2, CHR 0x80, CHR 0x89],
      [CHR 0xE2, CHR 0x80, CHR 0x8A], [CHR 0xE2, CHR 0x80, CHR 0xA8],
      [CHR 0xE2, CHR 0x80, CHR 0xA9], [CHR 0xE2, CHR 0x80, CHR 0xAF],
      [CHR 0xE2, CHR 0x81, CHR 0x9F], [CHR 0xE3, CHR 0x80, CHR 0x80]]"

definition runeLen :: "string list \<Rightarrow> string \<Rightarrow> nat" where
  "runeLen runes s = (case find (\<lambda>r. prefix r s) runes of None \<Rightarrow> 0 | Some r \<Rightarrow> length r)"

function trimRunes :: "string list \<Rightarrow> string \<Rightarrow> string" where
  "trimRunes runes s =
     (if runeLen runes s = 0 then s else trimRunes runes (drop (runeLen runes s) s))"
  by pat_completeness auto

termination trimRunes
proof (relation "measure (\<lambda>(runes, s). length s)")
  show "wf (measure (\<lambda>(runes, s). length s))" by simp
next
  fix runes :: "string list" and s :: string
  assume "runeLen runes s \<noteq> 0"
  moreover have "runeLen runes s \<le> length s"
    by (auto simp: runeLen_def prefix_def find_Some_iff split: option.split)
  ultimately show "((runes, drop (runeLen runes s) s), (runes, s)) \<in> measure (\<lambda>(runes, s). length s)"
    by simp
qed

definition TrimSpace :: "string \<Rightarrow> string" where
  "TrimSpace s = rev (trimRunes (map rev spaceRunes) (rev (trimRunes spaceRunes s)))"

text \<open>
  \<open>splitSrcsetRegex.Split(value, -1)\<close> for the expression \<open>,\s+\<close>: the matches are
  found from the left, each a comma with the longest run of \<open>[\t\n\f\r ]\<close> after it,
  and the pieces between the matches are returned, the last one also when it is empty.
\<close>

definition isRegexSpace :: "char \<Rightarrow> bool" where
  "isRegexSpace c \<longleftrightarrow> c = CHR 0x09 \<or> c = CHR 0x0A \<or> c = CHR 0x0C \<or> c = CHR 0x0D \<or> c = CHR 0x20"

function splitSrcset :: "string \<Rightarrow> string \<Rightarrow> string list" where
  "splitSrcset cur [] = [cur]"
| "splitSrcset cur (c # cs) =
     (if c = CHR '','' \<and> cs \<noteq> [] \<and> isRegexSpace (hd cs)
      then cur # splitSrcset [] (dropWhile isRegexSpace cs)
      else splitSrcset (cur @ [c]) cs)"
  by pat_completeness auto

termination splitSrcset
  by (relation "measure (\<lambda>(cur, s). length s)")
     (auto simp: less_Suc_eq_le length_dropWhile_le)

subsection \<open>The policy functions\<close>

definition isValidTag :: "Env \<Rightarrow> string \<Rightarrow> bool" where
  "isValidTag env tagName \<longleftrightarrow>
     tagName \<in> allowedTags env \<or> tagName \<in> allowedSvgTags env \<or> tagName \<in> allowedSvgFilters env"

definition isValidAttribute :: "Env \<Rightarrow> string \<Rightarrow> string \<Rightarrow> bool" where
  "isValidAttribute env tagName attributeName =
     (case allowedAttrs env tagName of
        Some attrs \<Rightarrow> attributeName \<in> attrs
      | None \<Rightarrow>
          if tagName \<in> allowedSvgTags env then attributeName \<in> allowedSvgAttrs env else False)"

definition isExternalResourceAttribute :: "string \<Rightarrow> bool" where
  "isExternalResourceAttribute attribute \<longleftrightarrow>
     attribute = ''src'' \<or> attribute = ''href'' \<or> attribute = ''poster'' \<or> attribute = ''cite''"

text \<open>
  \<open>hasRequiredAttributes\<close> ranges over a map of four keys; the keys are distinct, so the
  order of the iteration does not matter and the map is read at \<open>tagName\<close>.
\<close>

definition requiredAttributes :: "string \<rightharpoonup> string list" where
  "requiredAttributes =
     [''a'' \<mapsto> [''href''], ''iframe'' \<mapsto> [''src''], ''img'' \<mapsto> [''src''],
      ''source'' \<mapsto> [''src'', ''srcset'']]"

definition hasRequiredAttributes :: "string \<Rightarrow> string list \<Rightarrow> bool" where
  "hasRequiredAttributes tagName attributes =
     (case requiredAttributes tagName of
        Some attrs \<Rightarrow> list_ex (\<lambda>attribute. list_ex (\<lambda>attr. attr = attribute) attrs) attributes
      | None \<Rightarrow> True)"

text \<open>\<open>strings.SplitN(src, ":", 2)[0]\<close> is the part of \<open>src\<close> before its first colon.\<close>

definition hasValidURIScheme :: "Env \<Rightarrow> string \<Rightarrow> bool" where
  "hasValidURIScheme env src \<longleftrightarrow> takeWhile (\<lambda>c. c \<noteq> CHR '':'') src \<in> allowedURISchemes env"

definition resourceBlacklist :: "string list" where
  "resourceBlacklist =
     [''feedsportal.com'', ''api.flattr.com'', ''stats.wordpress.com'', ''plus.google.com/share'',
      ''twitter.com/share'', ''feeds.feedburner.com'']"

definition isBlockedResource :: "string \<Rightarrow> bool" where
  "isBlockedResource src = list_ex (\<lambda>element. sublist element src) resourceBlacklist"

definition iframeWhitelist :: "string list" where
  "iframeWhitelist =
     [''bandcamp.com'', ''cdn.embedly.com'', ''invidio.us'', ''player.bilibili.com'',
      ''player.vimeo.com'', ''soundcloud.com'', ''vk.com'', ''w.soundcloud.com'',
      ''www.dailymotion.com'', ''www.youtube-nocookie.com'', ''www.youtube.com'']"

definition isValidIframeSource :: "Env \<Rightarrow> string \<Rightarrow> string \<Rightarrow> bool" where
  "isValidIframeSource env baseURL src =
     (let domain = URLDomain env src
      in if URLDomain env baseURL = domain then True
         else list_ex (\<lambda>safeDomain. safeDomain = domain) iframeWhitelist)"

definition inList :: "string \<Rightarrow> string list \<Rightarrow> bool" where
  "inList needle haystack = list_ex (\<lambda>element. element = needle) haystack"

definition isBlockedTag :: "string \<Rightarrow> bool" where
  "isBlockedTag tagName = list_ex (\<lambda>element. element = tagName) [''noscript'', ''script'', ''style'']"

definition isValidWidthOrDensityDescriptor :: "Env \<Rightarrow> string \<Rightarrow> bool" where
  "isValidWidthOrDensityDescriptor env v =
     (if v = [] then False
      else if last v \<noteq> CHR ''w'' \<and> last v \<noteq> CHR ''x'' then False
      else ParseFloatOk env (butlast v))"

text \<open>
  The body of the loop of \<open>sanitizeSrcsetAttr\<close> for one raw source: \<open>None\<close> is its
  \<open>continue\<close>, \<open>Some\<close> the source it appends.
\<close>

definition sanitizeSource :: "Env \<Rightarrow> string \<Rightarrow> string \<Rightarrow> string option" where
  "sanitizeSource env baseURL rawSource =
     (let parts = Split (TrimSpace rawSource) CHR '' ''; nbParts = length parts
      in if nbParts > 0 then
           (let sanitizedSource =
                  (if \<not> prefix ''data:'' (hd parts) then AbsoluteUrl env (hd parts) baseURL
                   else hd parts)
            in if \<not> prefix ''data:'' (hd parts) \<and> sanitizedSource = [] then None
               else if nbParts = 2 \<and> isValidWidthOrDensityDescriptor env (parts ! 1)
               then Some (sanitizedSource @ '' '' @ parts ! 1)
               else Some sanitizedSource)
         else None)"

fun srcsetLoop :: "Env \<Rightarrow> string \<Rightarrow> string list \<Rightarrow> string list \<Rightarrow> string list" where
  "srcsetLoop env baseURL sanitizedSources [] = sanitizedSources"
| "srcsetLoop env baseURL sanitizedSources (rawSource # rawSources) =
     (case sanitizeSource env baseURL rawSource of
        None \<Rightarrow> srcsetLoop env baseURL sanitizedSources rawSources
      | Some sanitizedSource \<Rightarrow>
          srcsetLoop env baseURL (sanitizedSources @ [sanitizedSource]) rawSources)"

definition sanitizeSrcsetAttr :: "Env \<Rightarrow> string \<Rightarrow> string \<Rightarrow> string" where
  "sanitizeSrcsetAttr env baseURL v =
     Join (srcsetLoop env baseURL [] (splitSrcset [] v)) '', ''"

definition dataAttributeAllowList :: "string list" where
  "dataAttributeAllowList =
     [''data:image/avif'', ''data:image/apng'', ''data:image/png'', ''data:image/svg'',
      ''data:image/svg+xml'', ''data:image/jpg'', ''data:image/jpeg'', ''data:image/gif'',
      ''data:image/webp'']"

definition isValidDataAttribute :: "string \<Rightarrow> bool" where
  "isValidDataAttribute v = list_ex (\<lambda>p. prefix p v) dataAttributeAllowList"

definition videoWhitelist :: "string list" where
  "videoWhitelist =
     [''player.bilibili.com'', ''player.vimeo.com'', ''www.dailymotion.com'',
      ''www.youtube-nocookie.com'', ''www.youtube.com'']"

text \<open>The loop of \<open>isVideoIframe\<close> returns at the first attribute whose key is \<open>src\<close>.\<close>

definition isVideoIframe :: "Env \<Rightarrow> Token \<Rightarrow> bool" where
  "isVideoIframe env token =
     (if Data token = ''iframe'' then
        (case find (\<lambda>attr. Key attr = ''src'') (Attr token) of
           Some attr \<Rightarrow> URLDomain env (Val attr) \<in> set videoWhitelist
         | None \<Rightarrow> False)
      else False)"

definition getExtraAttributes :: "string \<Rightarrow> string list \<times> string list" where
  \<open>getExtraAttributes tagName =
     (if tagName = ''a'' then
        ([''rel'', ''target'', ''referrerpolicy''],
         [''rel="noopener noreferrer"'', ''target="_blank"'', ''referrerpolicy="no-referrer"''])
      else if tagName = ''video'' \<or> tagName = ''audio'' then ([''controls''], [''controls''])
      else if tagName = ''iframe'' then
        ([''sandbox'', ''loading''],
         [''sandbox="allow-scripts allow-same-origin allow-popups"'', ''loading="lazy"''])
      else if tagName = ''img'' then ([''loading''], [''loading="lazy"''])
      else ([], []))\<close>

text \<open>
  The body of the loop of \<open>sanitizeAttributes\<close> for one attribute: \<open>None\<close> is a
  \<open>continue\<close>, \<open>Some (key, value)\<close> the attribute kept and the value written for it.
\<close>

definition sanitizeAttribute :: "Env \<Rightarrow> string \<Rightarrow> string \<Rightarrow> Attribute \<Rightarrow> (string \<times> string) option" where
  "sanitizeAttribute env baseURL tagName attribute =
     (if \<not> isValidAttribute env tagName (Key attribute) then None
      else
        (let v = (if (tagName = ''img'' \<or> tagName = ''source'') \<and> Key attribute = ''srcset''
                  then sanitizeSrcsetAttr env baseURL (Val attribute) else Val attribute)
         in if isExternalResourceAttribute (Key attribute) then
              (if tagName = ''iframe'' then
                 (if isValidIframeSource env baseURL (Val attribute)
                  then Some (Key attribute, Val attribute) else None)
               else if tagName = ''img'' \<and> Key attribute = ''src'' \<and> isValidDataAttribute (Val attribute)
               then Some (Key attribute, Val attribute)
               else
                 (let v' = AbsoluteUrl env v baseURL
                  in if v' = [] then None
                     else if \<not> hasValidURIScheme env v' \<or> isBlockedResource v' then None
                     else Some (Key attribute, v')))
            else Some (Key attribute, v)))"

definition formatAttribute :: "string \<Rightarrow> string \<Rightarrow> string" where
  \<open>formatAttribute k v = k @ ''="'' @ EscapeString v @ ''"''\<close>

fun attributesLoop ::
  "Env \<Rightarrow> string \<Rightarrow> string \<Rightarrow> string list \<times> string list \<Rightarrow> Attribute list \<Rightarrow> string list \<times> string list" where
  "attributesLoop env baseURL tagName (attrNames, htmlAttrs) [] = (attrNames, htmlAttrs)"
| "attributesLoop env baseURL tagName (attrNames, htmlAttrs) (attribute # attributes) =
     (case sanitizeAttribute env baseURL tagName attribute of
        None \<Rightarrow> attributesLoop env baseURL tagName (attrNames, htmlAttrs) attributes
      | Some (k, v) \<Rightarrow>
          attributesLoop env baseURL tagName
            (attrNames @ [k], htmlAttrs @ [formatAttribute k v]) attributes)"

definition sanitizeAttributes :: "Env \<Rightarrow> string \<Rightarrow> string \<Rightarrow> Attribute list \<Rightarrow> string list \<times> string" where
  "sanitizeAttributes env baseURL tagName attributes =
     (let (attrNames, htmlAttrs) = attributesLoop env baseURL tagName ([], []) attributes;
          (extraAttrNames, extraHTMLAttributes) = getExtraAttributes tagName
      in if length extraAttrNames > 0
         then (attrNames @ extraAttrNames, Join (htmlAttrs @ extraHTMLAttributes) '' '')
         else (attrNames, Join htmlAttrs '' ''))"

subsection \<open>The loop of Sanitize\<close>

text \<open>
  The local variables of \<open>Sanitize\<close>. \<open>blacklistedTagDepth\<close> is a Go \<open>int\<close>; it
  changes by one per token, so it stays far from the ends of its 64 bits and is an
  integer here.
\<close>

record State =
  buffer :: string
  tagStack :: "string list"
  parentTag :: string
  blacklistedTagDepth :: int

definition initState :: State where
  "initState = \<lparr>buffer = [], tagStack = [], parentTag = [], blacklistedTagDepth = 0\<rparr>"

definition onTextToken :: "State \<Rightarrow> Token \<Rightarrow> State" where
  "onTextToken st token =
     (if blacklistedTagDepth st > 0 then st
      else if parentTag st = ''iframe'' then st
      else st\<lparr>buffer := buffer st @ EscapeString (Data token)\<rparr>)"

definition onStartTagToken :: "Env \<Rightarrow> string \<Rightarrow> State \<Rightarrow> Token \<Rightarrow> State" where
  \<open>onStartTagToken env baseURL st0 token =
     (let tagName = Data token;
          st = st0\<lparr>parentTag := tagName\<rparr>
      in if isValidTag env tagName then
           (let (attrNames, htmlAttributes) = sanitizeAttributes env baseURL tagName (Attr token)
            in if hasRequiredAttributes tagName attrNames then
                 (let wrap = isVideoIframe env token;
                      b1 = (if wrap then buffer st @ ''<div class="video-wrapper">'' else buffer st);
                      b2 = (if length attrNames > 0
                            then b1 @ ''<'' @ tagName @ '' '' @ htmlAttributes @ ''>''
                            else b1 @ ''<'' @ tagName @ ''>'')
                  in if tagName = ''iframe'' then
                       st\<lparr>buffer := (if wrap then b2 @ ''</iframe>'' @ ''</div>''
                                         else b2 @ ''</iframe>'')\<rparr>
                     else st\<lparr>buffer := b2, tagStack := tagStack st @ [tagName]\<rparr>)
               else st)
         else if isBlockedTag tagName
         then st\<lparr>blacklistedTagDepth := blacklistedTagDepth st + 1\<rparr>
         else st)\<close>

definition onEndTagToken :: "Env \<Rightarrow> State \<Rightarrow> Token \<Rightarrow> State" where
  "onEndTagToken env st token =
     (let tagName = Data token
      in if tagName = ''iframe'' then st
         else if isValidTag env tagName \<and> inList tagName (tagStack st)
         then st\<lparr>buffer := buffer st @ ''</'' @ tagName @ ''>''\<rparr>
         else if isBlockedTag tagName
         then st\<lparr>blacklistedTagDepth := blacklistedTagDepth st - 1\<rparr>
         else st)"

definition onSelfClosingTagToken :: "Env \<Rightarrow> string \<Rightarrow> State \<Rightarrow> Token \<Rightarrow> State" where
  "onSelfClosingTagToken env baseURL st token =
     (let tagName = Data token
      in if isValidTag env tagName then
           (let (attrNames, htmlAttributes) = sanitizeAttributes env baseURL tagName (Attr token)
            in if hasRequiredAttributes tagName attrNames then
                 (if length attrNames > 0
                  then st\<lparr>buffer := buffer st @ ''<'' @ tagName @ '' '' @ htmlAttributes @ ''/>''\<rparr>
                  else st\<lparr>buffer := buffer st @ ''<'' @ tagName @ ''/>''\<rparr>)
               else st)
         else st)"

text \<open>The \<open>switch\<close> on the type of the token; comments and doctypes have no case.\<close>

definition step :: "Env \<Rightarrow> string \<Rightarrow> State \<Rightarrow> Token \<Rightarrow> State" where
  "step env baseURL st token =
     (case Type token of
        TextToken \<Rightarrow> onTextToken st token
      | StartTagToken \<Rightarrow> onStartTagToken env baseURL st token
      | EndTagToken \<Rightarrow> onEndTagToken env st token
      | SelfClosingTagToken \<Rightarrow> onSelfClosingTagToken env baseURL st token
      | CommentToken \<Rightarrow> st
      | DoctypeToken \<Rightarrow> st)"

text \<open>
  The \<open>for\<close> loop: each token the tokenizer returns is processed; when \<open>Next\<close>
  returns \<open>ErrorToken\<close> the loop returns the buffer if the error is \<open>io.EOF\<close> and
  the empty string otherwise.
\<close>

fun sanitizeLoop :: "Env \<Rightarrow> string \<Rightarrow> State \<Rightarrow> Token list \<Rightarrow> TokenizerErr \<Rightarrow> string" where
  "sanitizeLoop env baseURL st [] err = (if err = EOF then buffer st else [])"
| "sanitizeLoop env baseURL st (token # tokens) err =
     sanitizeLoop env baseURL (step env baseURL st token) tokens err"

definition Sanitize :: "Env \<Rightarrow> string \<Rightarrow> Token list \<Rightarrow> TokenizerErr \<Rightarrow> string" where
  "Sanitize env baseURL tokens err = sanitizeLoop env baseURL initState tokens err"

text \<open>
  The attributes of a tag that survive \<open>sanitizeAttributes\<close>, each with the value
  written for it, in the order of the source.
\<close>

definition keptAttributes :: "Env \<Rightarrow> string \<Rightarrow> string \<Rightarrow> Attribute list \<Rightarrow> (string \<times> string) list" where
  "keptAttributes env baseURL tagName attributes =
     List.map_filter (sanitizeAttribute env baseURL tagName) attributes"

text \<open>The state of the loop after a run of tokens.\<close>

definition run :: "Env \<Rightarrow> string \<Rightarrow> State \<Rightarrow> Token list \<Rightarrow> State" where
  "run env baseURL st tokens = foldl (step env baseURL) st tokens"

subsection \<open>An instance of the missing tables and helpers\<close>

text \<open>
  The theorems below hold for every \<open>Env\<close>. To evaluate the functions on concrete
  inputs the tables are instantiated from \<open>getTagAllowList\<close>, the table the source file
  itself contains, with the schemes the specification names; the three helpers are simple
  stand-ins that agree with a URL parser and a float parser on the inputs evaluated below
  (absolute URLs, and references resolved against a base that has no path).
\<close>

definition getTagAllowList :: "(string \<times> string list) list" where
  "getTagAllowList =
     [(''img'', [''alt'', ''title'', ''src'', ''srcset'', ''sizes'']),
      (''picture'', []),
      (''audio'', [''src'']),
      (''video'', [''poster'', ''height'', ''width'', ''src'']),
      (''source'', [''src'', ''type'', ''srcset'', ''sizes'', ''media'']),
      (''dt'', []), (''dd'', []), (''dl'', []), (''table'', []), (''caption'', []),
      (''thead'', []), (''tfooter'', []), (''tr'', []),
      (''td'', [''rowspan'', ''colspan'']),
      (''th'', [''rowspan'', ''colspan'']),
      (''h1'', []), (''h2'', []), (''h3'', []), (''h4'', []), (''h5'', []), (''h6'', []),
      (''strong'', []), (''em'', []), (''code'', []), (''pre'', []), (''blockquote'', []),
      (''q'', [''cite'']),
      (''p'', []), (''ul'', []), (''li'', []), (''ol'', []), (''br'', []), (''del'', []),
      (''a'', [''href'', ''title'']),
      (''figure'', []), (''figcaption'', []), (''cite'', []),
      (''time'', [''datetime'']),
      (''abbr'', [''title'']),
      (''acronym'', [''title'']),
      (''wbr'', []), (''dfn'', []), (''sub'', []), (''sup'', []), (''var'', []), (''samp'', []),
      (''s'', []), (''del'', []), (''ins'', []), (''kbd'', []), (''rp'', []), (''rt'', []),
      (''rtc'', []), (''ruby'', []),
      (''iframe'', [''width'', ''height'', ''frameborder'', ''src'', ''allowfullscreen''])]"

definition isDigit :: "char \<Rightarrow> bool" where
  "isDigit c \<longleftrightarrow> 48 \<le> (of_char c :: nat) \<and> (of_char c :: nat) \<le> 57"

definition isLetter :: "char \<Rightarrow> bool" where
  "isLetter c \<longleftrightarrow>
     (97 \<le> (of_char c :: nat) \<and> (of_char c :: nat) \<le> 122) \<or>
     (65 \<le> (of_char c :: nat) \<and> (of_char c :: nat) \<le> 90)"

definition isSchemeChar :: "char \<Rightarrow> bool" where
  "isSchemeChar c \<longleftrightarrow> isLetter c \<or> isDigit c \<or> c = CHR ''+'' \<or> c = CHR ''-'' \<or> c = CHR ''.''"

definition schemeOf :: "string \<Rightarrow> string" where
  "schemeOf url =
     (let s = takeWhile (\<lambda>c. c \<noteq> CHR '':'') url
      in if s \<noteq> [] \<and> list_all isSchemeChar s \<and> length s < length url then s else [])"

definition authorityOf :: "string \<Rightarrow> string" where
  "authorityOf rest =
     (if prefix ''//'' rest
      then takeWhile (\<lambda>c. c \<noteq> CHR ''/'' \<and> c \<noteq> CHR ''?'' \<and> c \<noteq> CHR ''#'') (drop 2 rest)
      else [])"

definition exampleURLDomain :: "string \<Rightarrow> string" where
  "exampleURLDomain url =
     (if schemeOf url = [] then authorityOf url
      else authorityOf (drop (Suc (length (schemeOf url))) url))"

definition exampleAbsoluteUrl :: "string \<Rightarrow> string \<Rightarrow> string" where
  "exampleAbsoluteUrl href base =
     (let origin = schemeOf base @ ''://'' @ exampleURLDomain base
      in if prefix '':'' href then []
         else if schemeOf href \<noteq> [] then href
         else if prefix ''//'' href then schemeOf base @ '':'' @ href
         else if prefix ''/'' href then origin @ href
         else origin @ ''/'' @ href)"

definition exampleParseFloatOk :: "string \<Rightarrow> bool" where
  "exampleParseFloatOk s \<longleftrightarrow>
     list_all (\<lambda>c. isDigit c \<or> c = CHR ''.'') s \<and> list_ex isDigit s \<and>
     length (filter (\<lambda>c. c = CHR ''.'') s) \<le> 1"

definition exampleEnv :: Env where
  "exampleEnv =
     \<lparr>allowedTags = set (map fst getTagAllowList),
      allowedSvgTags = {},
      allowedSvgFilters = {},
      allowedAttrs = map_of (map (\<lambda>(tag, attrs). (tag, set attrs)) getTagAllowList),
      allowedSvgAttrs = {},
      allowedURISchemes = {''http'', ''https'', ''mailto''},
      AbsoluteUrl = exampleAbsoluteUrl,
      URLDomain = exampleURLDomain,
      ParseFloatOk = exampleParseFloatOk\<rparr>"


text \<open>Tokens, written as the tokenizer returns them.\<close>

definition Text :: "string \<Rightarrow> Token" where
  "Text s = \<lparr>Type = TextToken, Data = s, Attr = []\<rparr>"

definition attr :: "string \<Rightarrow> string \<Rightarrow> Attribute" where
  "attr k v = \<lparr>Key = k, Val = v\<rparr>"

definition StartTag :: "string \<Rightarrow> Attribute list \<Rightarrow> Token" where
  "StartTag name attrs = \<lparr>Type = StartTagToken, Data = name, Attr = attrs\<rparr>"

definition EndTag :: "string \<Rightarrow> Token" where
  "EndTag name = \<lparr>Type = EndTagToken, Data = name, Attr = []\<rparr>"

definition SelfClosingTag :: "string \<Rightarrow> Attribute list \<Rightarrow> Token" where
  "SelfClosingTag name attrs = \<lparr>Type = SelfClosingTagToken, Data = name, Attr = attrs\<rparr>"

subsection \<open>Predicates used in the statements\<close>





subsection \<open>The srcset algorithm in the words of the specification\<close>

text \<open>
  Written from section 4.4 of the specification, to be compared with
  \<open>sanitizeSrcsetAttr\<close>: a candidate, trimmed, is cut at its first space into a URL part
  and an optional descriptor part. The URL part is kept as it is if it starts with
  \<open>data:\<close> and resolved against the base otherwise; the candidate is dropped if that
  fails. The descriptor part is kept only if it is not empty, its last character is
  \<open>w\<close> or \<open>x\<close> and what stands before parses as a floating-point number. The
  surviving candidates are joined with a comma and a space.
\<close>

definition descriptorKept :: "Env \<Rightarrow> string \<Rightarrow> bool" where
  "descriptorKept env d \<longleftrightarrow>
     d \<noteq> [] \<and> (last d = CHR ''w'' \<or> last d = CHR ''x'') \<and> ParseFloatOk env (butlast d)"

definition candidateSpec :: "Env \<Rightarrow> string \<Rightarrow> string \<Rightarrow> string option" where
  "candidateSpec env baseURL candidate =
     (let c = TrimSpace candidate;
          url = takeWhile (\<lambda>x. x \<noteq> CHR '' '') c;
          descriptor = (case dropWhile (\<lambda>x. x \<noteq> CHR '' '') c of [] \<Rightarrow> None | _ # d \<Rightarrow> Some d);
          kept = (if prefix ''data:'' url then Some url
                  else if AbsoluteUrl env url baseURL = [] then None
                  else Some (AbsoluteUrl env url baseURL))
      in case kept of
           None \<Rightarrow> None
         | Some u \<Rightarrow>
             (case descriptor of
                None \<Rightarrow> Some u
              | Some d \<Rightarrow> if descriptorKept env d then Some (u @ '' '' @ d) else Some u))"

definition srcsetSpec :: "Env \<Rightarrow> string \<Rightarrow> string \<Rightarrow> string" where
  "srcsetSpec env baseURL v =
     Join (List.map_filter (candidateSpec env baseURL) (splitSrcset [] v)) '', ''"

section \<open>Properties\<close>

subsection \<open>The loop and the state\<close>

lemma run_Nil: "run env baseURL st [] = st"
  by (simp add: run_def)

lemma run_Cons:
  "run env baseURL st (token # tokens) = run env baseURL (step env baseURL st token) tokens"
  by (simp add: run_def)

lemma run_append: "run env baseURL st (xs @ ys) = run env baseURL (run env baseURL st xs) ys"
  by (simp add: run_def)

lemma sanitizeLoop_run:
  "sanitizeLoop env baseURL st tokens err =
     (if err = EOF then buffer (run env baseURL st tokens) else [])"
  by (induction tokens arbitrary: st) (simp_all add: run_Nil run_Cons)

text \<open>
  Claim C4. Whatever the tokens delivered before it, an error of the tokenizer other than
  the end of the input makes \<open>Sanitize\<close> return the empty string, and the end of the
  input makes it return the buffer as the tokens have left it.
\<close>

theorem C4_error_returns_empty:
  "Sanitize env baseURL tokens OtherError = [] \<and>
   Sanitize env baseURL tokens EOF = buffer (run env baseURL initState tokens)"
  by (simp add: Sanitize_def sanitizeLoop_run)

subsection \<open>Evaluating concrete inputs\<close>

lemmas example_defs = exampleEnv_def getTagAllowList_def exampleAbsoluteUrl_def schemeOf_def
  exampleURLDomain_def authorityOf_def isSchemeChar_def isLetter_def isDigit_def
  exampleParseFloatOk_def StartTag_def EndTag_def Text_def attr_def SelfClosingTag_def

lemmas sanitize_defs = Sanitize_def run_def step_def onStartTagToken_def onTextToken_def
  onEndTagToken_def onSelfClosingTagToken_def initState_def isValidTag_def
  sanitizeAttributes_def sanitizeAttribute_def isValidAttribute_def
  isExternalResourceAttribute_def hasValidURIScheme_def isBlockedResource_def
  resourceBlacklist_def isBlockedTag_def sublist_Cons_right getExtraAttributes_def
  formatAttribute_def EscapeString_def escapeChar_def hasRequiredAttributes_def
  requiredAttributes_def isVideoIframe_def inList_def Let_def isValidIframeSource_def
  iframeWhitelist_def videoWhitelist_def isValidDataAttribute_def dataAttributeAllowList_def

lemma Sanitize_EOF: "Sanitize env baseURL tokens EOF = buffer (run env baseURL initState tokens)"
  by (simp add: Sanitize_def sanitizeLoop_run)

subsection \<open>The stack of open tags\<close>

lemma step_tagStack_prefix: "prefix (tagStack st) (tagStack (step env baseURL st token))"
  by (cases "Type token")
     (auto simp: step_def onTextToken_def onStartTagToken_def onEndTagToken_def
        onSelfClosingTagToken_def Let_def split: prod.splits)

lemma run_tagStack_prefix: "prefix (tagStack st) (tagStack (run env baseURL st tokens))"
proof (induction tokens arbitrary: st)
  case Nil
  show ?case by (simp add: run_Nil)
next
  case (Cons token tokens)
  have "prefix (tagStack st) (tagStack (step env baseURL st token))"
    by (rule step_tagStack_prefix)
  also have "prefix \<dots> (tagStack (run env baseURL (step env baseURL st token) tokens))"
    by (rule Cons.IH)
  finally show ?case by (simp add: run_Cons)
qed

lemma step_EndTag_emits:
  assumes "isValidTag env t" "t \<noteq> ''iframe''" "t \<in> set (tagStack st)"
    and "Type token = EndTagToken" "Data token = t"
  shows "step env baseURL st token = st\<lparr>buffer := buffer st @ ''</'' @ t @ ''>''\<rparr>"
  using assms by (simp add: step_def onEndTagToken_def inList_def list_ex_iff)

lemma run_EndTags:
  assumes "isValidTag env t" "t \<noteq> ''iframe''" "t \<in> set (tagStack st)"
  shows "run env baseURL st (replicate n (EndTag t)) =
           st\<lparr>buffer := buffer st @ concat (replicate n (''</'' @ t @ ''>''))\<rparr>"
  using assms(3)
proof (induction n arbitrary: st)
  case 0
  show ?case by (simp add: run_Nil)
next
  case (Suc n)
  let ?st = "st\<lparr>buffer := buffer st @ ''</'' @ t @ ''>''\<rparr>"
  have "t \<in> set (tagStack ?st)" using Suc.prems by simp
  from Suc.IH[OF this] show ?case
    using step_EndTag_emits[OF assms(1,2) Suc.prems, of "EndTag t" baseURL]
    by (simp add: run_Cons EndTag_def)
qed

lemma step_StartTag_pushes:
  assumes "isValidTag env t" "t \<noteq> ''iframe''"
    and "hasRequiredAttributes t (fst (sanitizeAttributes env baseURL t attrs))"
  shows "tagStack (step env baseURL st (StartTag t attrs)) = tagStack st @ [t]"
  using assms
  by (cases "sanitizeAttributes env baseURL t attrs")
     (simp add: step_def StartTag_def onStartTagToken_def Let_def)

text \<open>
  Claim C9. The stack of open tags only grows: after any run of tokens the old stack is
  a prefix of the new one. So once an allowed tag \<open>t\<close> other than \<open>iframe\<close> is on the
  stack, every later end tag \<open>t\<close> writes \<open></t>\<close> and leaves the stack as it is, and a
  kept start tag \<open>t\<close> followed by \<open>n\<close> end tags \<open>t\<close> writes \<open>n\<close> close tags.
\<close>

theorem C9_tagStack_append_only:
  "prefix (tagStack st) (tagStack (run env baseURL st tokens)) \<and>
   (isValidTag env t \<and> t \<noteq> ''iframe'' \<and> t \<in> set (tagStack st) \<longrightarrow>
      step env baseURL (run env baseURL st tokens) (EndTag t) =
        (run env baseURL st tokens)
          \<lparr>buffer := buffer (run env baseURL st tokens) @ ''</'' @ t @ ''>''\<rparr>) \<and>
   (isValidTag env t \<and> t \<noteq> ''iframe'' \<and>
    hasRequiredAttributes t (fst (sanitizeAttributes env baseURL t attrs)) \<longrightarrow>
      tagStack (step env baseURL st (StartTag t attrs)) = tagStack st @ [t] \<and>
      run env baseURL st (StartTag t attrs # replicate n (EndTag t)) =
        (step env baseURL st (StartTag t attrs))
          \<lparr>buffer := buffer (step env baseURL st (StartTag t attrs)) @
                      concat (replicate n (''</'' @ t @ ''>''))\<rparr>)"
proof (intro conjI impI)
  show "prefix (tagStack st) (tagStack (run env baseURL st tokens))"
    by (rule run_tagStack_prefix)
next
  assume a: "isValidTag env t \<and> t \<noteq> ''iframe'' \<and> t \<in> set (tagStack st)"
  have "set (tagStack st) \<subseteq> set (tagStack (run env baseURL st tokens))"
    by (rule set_mono_prefix) (rule run_tagStack_prefix)
  with a have "t \<in> set (tagStack (run env baseURL st tokens))" by blast
  with a show "step env baseURL (run env baseURL st tokens) (EndTag t) =
        (run env baseURL st tokens)
          \<lparr>buffer := buffer (run env baseURL st tokens) @ ''</'' @ t @ ''>''\<rparr>"
    by (intro step_EndTag_emits) (simp_all add: EndTag_def)
next
  assume a: "isValidTag env t \<and> t \<noteq> ''iframe'' \<and>
    hasRequiredAttributes t (fst (sanitizeAttributes env baseURL t attrs))"
  then show p: "tagStack (step env baseURL st (StartTag t attrs)) = tagStack st @ [t]"
    by (intro step_StartTag_pushes) simp_all
  have "t \<in> set (tagStack (step env baseURL st (StartTag t attrs)))"
    by (simp add: p)
  with a show "run env baseURL st (StartTag t attrs # replicate n (EndTag t)) =
        (step env baseURL st (StartTag t attrs))
          \<lparr>buffer := buffer (step env baseURL st (StartTag t attrs)) @
                      concat (replicate n (''</'' @ t @ ''>''))\<rparr>"
    by (simp add: run_Cons run_EndTags)
qed

text \<open>One \<open><p>\<close> and three \<open></p>\<close>: three close tags are written.\<close>

theorem C9_witness:
  "Sanitize exampleEnv ''https://ex.com'' [StartTag ''p'' [], EndTag ''p'', EndTag ''p'', EndTag ''p''] EOF
     = ''<p></p></p></p>''"
proof -
  have v: "isValidTag exampleEnv ''p''"
    by (simp add: isValidTag_def example_defs)
  have r: "hasRequiredAttributes ''p'' (fst (sanitizeAttributes exampleEnv ''https://ex.com'' ''p'' []))"
    by (simp add: hasRequiredAttributes_def requiredAttributes_def)
  have s: "step exampleEnv ''https://ex.com'' initState (StartTag ''p'' []) =
     \<lparr>buffer = ''<p>'', tagStack = [''p''], parentTag = ''p'', blacklistedTagDepth = 0\<rparr>"
    by (simp add: sanitize_defs example_defs)
  have n: "replicate 3 (EndTag ''p'') = [EndTag ''p'', EndTag ''p'', EndTag ''p'']"
    by (simp add: numeral_3_eq_3)
  from C9_tagStack_append_only[of initState exampleEnv "''https://ex.com''" "[]" "''p''" "[]" 3]
  show ?thesis using v r by (simp add: s n numeral_3_eq_3 Sanitize_EOF)
qed

subsection \<open>The most recent start tag\<close>

lemma step_parentTag:
  "parentTag (step env baseURL st token) =
     (if Type token = StartTagToken then Data token else parentTag st)"
  by (cases "Type token")
     (auto simp: step_def onTextToken_def onStartTagToken_def onEndTagToken_def
        onSelfClosingTagToken_def Let_def split: prod.splits)

lemma step_Text_after_iframe:
  "parentTag st = ''iframe'' \<Longrightarrow> Type token = TextToken \<Longrightarrow> step env baseURL st token = st"
  by (simp add: step_def onTextToken_def)

lemma run_without_text:
  assumes "parentTag st = ''iframe''"
    and "list_all (\<lambda>tok. Type tok \<noteq> StartTagToken) tokens"
  shows "run env baseURL st tokens =
         run env baseURL st (filter (\<lambda>tok. Type tok \<noteq> TextToken) tokens)"
  using assms
proof (induction tokens arbitrary: st)
  case Nil
  show ?case by simp
next
  case (Cons token tokens)
  show ?case
  proof (cases "Type token = TextToken")
    case True
    with Cons.prems have "step env baseURL st token = st"
      by (simp add: step_Text_after_iframe)
    with True Cons show ?thesis by (simp add: run_Cons)
  next
    case False
    from Cons.prems have "parentTag (step env baseURL st token) = ''iframe''"
      by (simp add: step_parentTag)
    with Cons.prems Cons.IH[of "step env baseURL st token"] False
    show ?thesis by (simp add: run_Cons)
  qed
qed

text \<open>
  Claim C10. A start tag sets the most recent tag to its name, whether the tag is kept,
  dropped or skipped, and no other token changes it. So after an \<open>iframe\<close> start tag and
  up to the next start tag every text token leaves the state as it is: taking the text
  tokens out of such a run changes nothing, also when they stand after the end tag of
  the iframe.
\<close>

theorem C10_text_after_iframe_dropped:
  "parentTag (step env baseURL st token) =
     (if Type token = StartTagToken then Data token else parentTag st) \<and>
   (list_all (\<lambda>tok. Type tok \<noteq> StartTagToken) tokens \<longrightarrow>
      run env baseURL st (StartTag ''iframe'' attrs # tokens) =
      run env baseURL st
        (StartTag ''iframe'' attrs # filter (\<lambda>tok. Type tok \<noteq> TextToken) tokens))"
proof (intro conjI impI)
  show "parentTag (step env baseURL st token) =
     (if Type token = StartTagToken then Data token else parentTag st)"
    by (rule step_parentTag)
next
  assume a: "list_all (\<lambda>tok. Type tok \<noteq> StartTagToken) tokens"
  have "parentTag (step env baseURL st (StartTag ''iframe'' attrs)) = ''iframe''"
    by (simp add: step_parentTag StartTag_def)
  from run_without_text[OF this a]
  show "run env baseURL st (StartTag ''iframe'' attrs # tokens) =
      run env baseURL st
        (StartTag ''iframe'' attrs # filter (\<lambda>tok. Type tok \<noteq> TextToken) tokens)"
    by (simp add: run_Cons)
qed

text \<open>Text inside the iframe, after its end tag and after a self-closing tag is dropped.\<close>

theorem C10_witness:
  \<open>Sanitize exampleEnv ''https://ex.com''
     [StartTag ''iframe'' [attr ''src'' ''https://bandcamp.com/e''], Text ''fallback'',
      EndTag ''iframe'', Text ''after the frame'', SelfClosingTag ''br'' [], Text ''more''] EOF
   = ''<iframe src="https://bandcamp.com/e" sandbox="allow-scripts allow-same-origin allow-popups" loading="lazy"></iframe><br/>''\<close>
proof -
  have "Sanitize exampleEnv ''https://ex.com''
     [StartTag ''iframe'' [attr ''src'' ''https://bandcamp.com/e''], Text ''fallback'',
      EndTag ''iframe'', Text ''after the frame'', SelfClosingTag ''br'' [], Text ''more''] EOF
    = Sanitize exampleEnv ''https://ex.com''
     [StartTag ''iframe'' [attr ''src'' ''https://bandcamp.com/e''],
      EndTag ''iframe'', SelfClosingTag ''br'' []] EOF"
    using C10_text_after_iframe_dropped[of exampleEnv "''https://ex.com''" initState
        "Text ''x''" "[Text ''fallback'', EndTag ''iframe'', Text ''after the frame'',
             SelfClosingTag ''br'' [], Text ''more'']" "[attr ''src'' ''https://bandcamp.com/e'']"]
    by (simp add: Sanitize_EOF Text_def EndTag_def SelfClosingTag_def)
  also have "\<dots> = ''<iframe src=\"https://bandcamp.com/e\" sandbox=\"allow-scripts allow-same-origin allow-popups\" loading=\"lazy\"></iframe><br/>''"
    by (simp add: sanitize_defs example_defs)
  finally show ?thesis .
qed

subsection \<open>The depth of blocked tags\<close>

text \<open>
  Claim C3. The end tag of a blocked tag subtracts one from the depth with no floor. A
  stray \<open></script>\<close> leaves the depth at \<open>-1\<close>, the next \<open><script>\<close> brings it back to
  \<open>0\<close>, and the text of that script, which is suppressed without the stray end tag, is
  written to the output.
\<close>

theorem C3_depth_goes_negative:
  "blacklistedTagDepth (run exampleEnv ''https://ex.com'' initState [EndTag ''script'']) = - 1 \<and>
   Sanitize exampleEnv ''https://ex.com''
     [StartTag ''script'' [], Text ''alert(1)'', EndTag ''script''] EOF = [] \<and>
   Sanitize exampleEnv ''https://ex.com''
     [EndTag ''script'', StartTag ''script'' [], Text ''alert(1)'', EndTag ''script''] EOF
     = ''alert(1)''"
  by (simp add: sanitize_defs example_defs)

subsection \<open>The attributes that survive\<close>

lemma attributesLoop_kept:
  "attributesLoop env baseURL tagName (attrNames, htmlAttrs) attributes =
     (attrNames @ map fst (keptAttributes env baseURL tagName attributes),
      htmlAttrs @ map (\<lambda>(k, v). formatAttribute k v) (keptAttributes env baseURL tagName attributes))"
proof (induction attributes arbitrary: attrNames htmlAttrs)
  case Nil
  show ?case by (simp add: keptAttributes_def map_filter_simps)
next
  case (Cons a attributes)
  show ?case
    by (cases "sanitizeAttribute env baseURL tagName a")
       (auto simp: Cons.IH keptAttributes_def map_filter_simps)
qed

lemma getExtraAttributes_Nil:
  "fst (getExtraAttributes tagName) = [] \<Longrightarrow> snd (getExtraAttributes tagName) = []"
  by (simp add: getExtraAttributes_def split: if_splits)

lemma sanitizeAttributes_kept:
  "sanitizeAttributes env baseURL tagName attributes =
     (map fst (keptAttributes env baseURL tagName attributes) @ fst (getExtraAttributes tagName),
      Join (map (\<lambda>(k, v). formatAttribute k v) (keptAttributes env baseURL tagName attributes)
            @ snd (getExtraAttributes tagName)) '' '')"
  using getExtraAttributes_Nil[of tagName]
  by (cases "getExtraAttributes tagName")
     (auto simp: sanitizeAttributes_def attributesLoop_kept)

lemma hasRequiredAttributes_iff:
  "hasRequiredAttributes tagName names \<longleftrightarrow>
     (tagName = ''a'' \<longrightarrow> ''href'' \<in> set names) \<and>
     (tagName = ''iframe'' \<longrightarrow> ''src'' \<in> set names) \<and>
     (tagName = ''img'' \<longrightarrow> ''src'' \<in> set names) \<and>
     (tagName = ''source'' \<longrightarrow> ''src'' \<in> set names \<or> ''srcset'' \<in> set names)"
  by (auto simp: hasRequiredAttributes_def requiredAttributes_def list_ex_iff)

lemma extra_names_not_required:
  "''href'' \<notin> set (fst (getExtraAttributes tagName))"
  "''src'' \<notin> set (fst (getExtraAttributes tagName))"
  "''srcset'' \<notin> set (fst (getExtraAttributes tagName))"
  by (simp_all add: getExtraAttributes_def)

lemma hasRequiredAttributes_kept:
  "hasRequiredAttributes tagName (fst (sanitizeAttributes env baseURL tagName attributes)) \<longleftrightarrow>
     (tagName = ''a'' \<longrightarrow> ''href'' \<in> fst ` set (keptAttributes env baseURL tagName attributes)) \<and>
     (tagName = ''iframe'' \<longrightarrow> ''src'' \<in> fst ` set (keptAttributes env baseURL tagName attributes)) \<and>
     (tagName = ''img'' \<longrightarrow> ''src'' \<in> fst ` set (keptAttributes env baseURL tagName attributes)) \<and>
     (tagName = ''source'' \<longrightarrow>
        ''src'' \<in> fst ` set (keptAttributes env baseURL tagName attributes) \<or>
        ''srcset'' \<in> fst ` set (keptAttributes env baseURL tagName attributes))"
  by (simp add: hasRequiredAttributes_iff sanitizeAttributes_kept extra_names_not_required)

subsection \<open>Tags that are kept and tags that are dropped\<close>

lemma step_StartTag_dropped:
  assumes "isValidTag env t"
    and "\<not> hasRequiredAttributes t (fst (sanitizeAttributes env baseURL t attrs))"
  shows "step env baseURL st (StartTag t attrs) = st\<lparr>parentTag := t\<rparr>"
  using assms
  by (cases "sanitizeAttributes env baseURL t attrs")
     (simp add: step_def StartTag_def onStartTagToken_def Let_def)

lemma step_SelfClosingTag_dropped:
  assumes "isValidTag env t"
    and "\<not> hasRequiredAttributes t (fst (sanitizeAttributes env baseURL t attrs))"
  shows "step env baseURL st (SelfClosingTag t attrs) = st"
  using assms
  by (cases "sanitizeAttributes env baseURL t attrs")
     (simp add: step_def SelfClosingTag_def onSelfClosingTagToken_def Let_def)

lemma step_StartTag_kept:
  assumes "isValidTag env t" "t \<noteq> ''iframe''"
    and "hasRequiredAttributes t (fst (sanitizeAttributes env baseURL t attrs))"
  shows "step env baseURL st (StartTag t attrs) =
     st\<lparr>parentTag := t,
        buffer := buffer st @ ''<'' @ t @
          (if fst (sanitizeAttributes env baseURL t attrs) = [] then []
           else '' '' @ snd (sanitizeAttributes env baseURL t attrs)) @ ''>'',
        tagStack := tagStack st @ [t]\<rparr>"
  using assms
  by (cases "sanitizeAttributes env baseURL t attrs")
     (simp add: step_def StartTag_def onStartTagToken_def Let_def isVideoIframe_def)

lemma step_SelfClosingTag_kept:
  assumes "isValidTag env t"
    and "hasRequiredAttributes t (fst (sanitizeAttributes env baseURL t attrs))"
  shows "step env baseURL st (SelfClosingTag t attrs) =
     st\<lparr>buffer := buffer st @ ''<'' @ t @
          (if fst (sanitizeAttributes env baseURL t attrs) = [] then []
           else '' '' @ snd (sanitizeAttributes env baseURL t attrs)) @ ''/>''\<rparr>"
  using assms
  by (cases "sanitizeAttributes env baseURL t attrs")
     (simp add: step_def SelfClosingTag_def onSelfClosingTagToken_def Let_def)

lemma step_StartTag_iframe:
  \<open>step env baseURL st (StartTag ''iframe'' attrs) =
     (if isValidTag env ''iframe'' \<and>
         hasRequiredAttributes ''iframe'' (fst (sanitizeAttributes env baseURL ''iframe'' attrs))
      then st\<lparr>parentTag := ''iframe'',
              buffer := buffer st @
                (if isVideoIframe env (StartTag ''iframe'' attrs)
                 then ''<div class="video-wrapper">'' else []) @
                ''<iframe '' @ snd (sanitizeAttributes env baseURL ''iframe'' attrs) @ ''>'' @
                ''</iframe>'' @
                (if isVideoIframe env (StartTag ''iframe'' attrs) then ''</div>'' else [])\<rparr>
      else st\<lparr>parentTag := ''iframe''\<rparr>)\<close>
  by (cases "sanitizeAttributes env baseURL ''iframe'' attrs")
     (auto simp: step_def StartTag_def onStartTagToken_def Let_def isBlockedTag_def
        sanitizeAttributes_kept getExtraAttributes_def)

lemma step_EndTag_iframe:
  "Type token = EndTagToken \<Longrightarrow> Data token = ''iframe'' \<Longrightarrow> step env baseURL st token = st"
  by (simp add: step_def onEndTagToken_def)


text \<open>
  Claim C5. Every iframe that is written should be closed at once and, for a video
  domain, wrapped. The branch for start tags does so; the branch for self-closing tags
  does not: a self-closing iframe token of a video domain is written as
  \<open><iframe ... />\<close>, with no \<open></iframe>\<close> after it and no wrapper.
\<close>

theorem C5_self_closing_iframe_not_closed:
  \<open>Sanitize exampleEnv ''https://ex.com''
     [SelfClosingTag ''iframe'' [attr ''src'' ''https://www.youtube.com/embed/1'']] EOF
   = ''<iframe src="https://www.youtube.com/embed/1" sandbox="allow-scripts allow-same-origin allow-popups" loading="lazy"/>'' \<and>
   URLDomain exampleEnv ''https://www.youtube.com/embed/1'' \<in> set videoWhitelist\<close>
  by (simp add: sanitize_defs example_defs)

text \<open>
  The branch for start tags closes and wraps. A start tag \<open>iframe\<close> that is kept
  writes the opening tag, with \<open></iframe>\<close> right after it, and the pair stands in the
  wrapper exactly when \<open>isVideoIframe\<close> holds, that is when the domain of the first
  \<open>src\<close> attribute of the token is a video domain; a start tag \<open>iframe\<close> that is not
  kept writes nothing; an end tag \<open>iframe\<close> changes nothing.
\<close>

lemma iframe_start_tag_autoclosed:
  \<open>step env baseURL st (StartTag ''iframe'' attrs) =
     (if isValidTag env ''iframe'' \<and>
         hasRequiredAttributes ''iframe'' (fst (sanitizeAttributes env baseURL ''iframe'' attrs))
      then st\<lparr>parentTag := ''iframe'',
              buffer := buffer st @
                (if isVideoIframe env (StartTag ''iframe'' attrs)
                 then ''<div class="video-wrapper">'' else []) @
                ''<iframe '' @ snd (sanitizeAttributes env baseURL ''iframe'' attrs) @ ''>'' @
                ''</iframe>'' @
                (if isVideoIframe env (StartTag ''iframe'' attrs) then ''</div>'' else [])\<rparr>
      else st\<lparr>parentTag := ''iframe''\<rparr>) \<and>
   isVideoIframe env (StartTag ''iframe'' attrs) =
     (case find (\<lambda>a. Key a = ''src'') attrs of
        Some a \<Rightarrow> URLDomain env (Val a) \<in> set videoWhitelist
      | None \<Rightarrow> False) \<and>
   (Type token = EndTagToken \<and> Data token = ''iframe'' \<longrightarrow> step env baseURL st token = st)\<close>
proof (intro conjI impI)
  show "isVideoIframe env (StartTag ''iframe'' attrs) =
     (case find (\<lambda>a. Key a = ''src'') attrs of
        Some a \<Rightarrow> URLDomain env (Val a) \<in> set videoWhitelist
      | None \<Rightarrow> False)"
    by (simp add: isVideoIframe_def StartTag_def)
next
  assume "Type token = EndTagToken \<and> Data token = ''iframe''"
  then show "step env baseURL st token = st"
    by (simp add: step_EndTag_iframe)
qed (rule step_StartTag_iframe)

text \<open>An iframe of a video domain is wrapped, one of another allowed domain is not.\<close>

lemma iframe_start_tag_example:
  \<open>Sanitize exampleEnv ''https://ex.com''
     [StartTag ''iframe'' [attr ''src'' ''https://www.youtube.com/embed/1''], EndTag ''iframe'',
      StartTag ''iframe'' [attr ''src'' ''https://bandcamp.com/e''], EndTag ''iframe''] EOF
   = ''<div class="video-wrapper"><iframe src="https://www.youtube.com/embed/1" sandbox="allow-scripts allow-same-origin allow-popups" loading="lazy"></iframe></div><iframe src="https://bandcamp.com/e" sandbox="allow-scripts allow-same-origin allow-popups" loading="lazy"></iframe>''\<close>
proof -
  have e: "step exampleEnv ''https://ex.com'' st (EndTag ''iframe'') = st" for st
    using iframe_start_tag_autoclosed[of exampleEnv "''https://ex.com''" st "[]" "EndTag ''iframe''"]
    by (simp add: EndTag_def)
  have v: "isValidTag exampleEnv ''iframe''"
    by (simp add: isValidTag_def example_defs)
  have a1: \<open>sanitizeAttributes exampleEnv ''https://ex.com'' ''iframe''
              [attr ''src'' ''https://www.youtube.com/embed/1''] =
            ([''src'', ''sandbox'', ''loading''],
             ''src="https://www.youtube.com/embed/1" sandbox="allow-scripts allow-same-origin allow-popups" loading="lazy"'')\<close>
    by (simp add: sanitize_defs example_defs)
  have a2: \<open>sanitizeAttributes exampleEnv ''https://ex.com'' ''iframe''
              [attr ''src'' ''https://bandcamp.com/e''] =
            ([''src'', ''sandbox'', ''loading''],
             ''src="https://bandcamp.com/e" sandbox="allow-scripts allow-same-origin allow-popups" loading="lazy"'')\<close>
    by (simp add: sanitize_defs example_defs)
  have w1: "isVideoIframe exampleEnv (StartTag ''iframe'' [attr ''src'' ''https://www.youtube.com/embed/1''])"
    by (simp add: isVideoIframe_def videoWhitelist_def example_defs)
  have w2: "\<not> isVideoIframe exampleEnv (StartTag ''iframe'' [attr ''src'' ''https://bandcamp.com/e''])"
    by (simp add: isVideoIframe_def videoWhitelist_def example_defs)
  have r: "hasRequiredAttributes ''iframe'' [''src'', ''sandbox'', ''loading'']"
    by (simp add: hasRequiredAttributes_def requiredAttributes_def)
  have s1: \<open>step exampleEnv ''https://ex.com'' st
              (StartTag ''iframe'' [attr ''src'' ''https://www.youtube.com/embed/1'']) =
      st\<lparr>parentTag := ''iframe'',
         buffer := buffer st @ ''<div class="video-wrapper"><iframe src="https://www.youtube.com/embed/1" sandbox="allow-scripts allow-same-origin allow-popups" loading="lazy"></iframe></div>''\<rparr>\<close> for st
    using iframe_start_tag_autoclosed[of exampleEnv "''https://ex.com''" st
        "[attr ''src'' ''https://www.youtube.com/embed/1'']" "EndTag ''iframe''"] v w1 r
    by (simp add: a1)
  have s2: \<open>step exampleEnv ''https://ex.com'' st
              (StartTag ''iframe'' [attr ''src'' ''https://bandcamp.com/e'']) =
      st\<lparr>parentTag := ''iframe'',
         buffer := buffer st @ ''<iframe src="https://bandcamp.com/e" sandbox="allow-scripts allow-same-origin allow-popups" loading="lazy"></iframe>''\<rparr>\<close> for st
    using iframe_start_tag_autoclosed[of exampleEnv "''https://ex.com''" st
        "[attr ''src'' ''https://bandcamp.com/e'']" "EndTag ''iframe''"] v w2 r
    by (simp add: a2)
  show ?thesis
    by (simp add: Sanitize_EOF run_Cons run_Nil s1 s2 e initState_def)
qed

text \<open>
  Claim C6 as stated fails in its remark that the children of a dropped tag are processed
  as if the tag were absent: an iframe start tag dropped for its \<open>src\<close> still becomes the
  most recent tag, so the text after it is suppressed, while the same text alone is
  written.
\<close>

theorem C6_counterexample:
  "Sanitize exampleEnv ''https://ex.com''
     [StartTag ''iframe'' [attr ''src'' ''https://evil.example/x''], Text ''fallback'', EndTag ''iframe''] EOF = [] \<and>
   Sanitize exampleEnv ''https://ex.com'' [Text ''fallback''] EOF = ''fallback'' \<and>
   isValidTag exampleEnv ''iframe''"
  by (simp add: sanitize_defs example_defs)

text \<open>
  Claim C6, amended. For an allowed tag, the required attributes are \<open>href\<close> for \<open>a\<close>,
  \<open>src\<close> for \<open>iframe\<close> and \<open>img\<close>, \<open>src\<close> or \<open>srcset\<close> for \<open>source\<close>, looked up among
  the attributes that survive. When none survives, a start tag changes only the most
  recent tag (nothing is written, nothing is pushed, the depth stays) and a self-closing
  tag changes nothing. Every other allowed tag is written, also with no attribute.
\<close>

theorem C6_required_attributes:
  "isValidTag env t \<longrightarrow>
     (hasRequiredAttributes t (fst (sanitizeAttributes env baseURL t attrs)) \<longleftrightarrow>
        (t = ''a'' \<longrightarrow> ''href'' \<in> fst ` set (keptAttributes env baseURL t attrs)) \<and>
        (t = ''iframe'' \<longrightarrow> ''src'' \<in> fst ` set (keptAttributes env baseURL t attrs)) \<and>
        (t = ''img'' \<longrightarrow> ''src'' \<in> fst ` set (keptAttributes env baseURL t attrs)) \<and>
        (t = ''source'' \<longrightarrow>
           ''src'' \<in> fst ` set (keptAttributes env baseURL t attrs) \<or>
           ''srcset'' \<in> fst ` set (keptAttributes env baseURL t attrs))) \<and>
     (\<not> hasRequiredAttributes t (fst (sanitizeAttributes env baseURL t attrs)) \<longrightarrow>
        step env baseURL st (StartTag t attrs) = st\<lparr>parentTag := t\<rparr> \<and>
        step env baseURL st (SelfClosingTag t attrs) = st) \<and>
     (t \<noteq> ''a'' \<and> t \<noteq> ''iframe'' \<and> t \<noteq> ''img'' \<and> t \<noteq> ''source'' \<longrightarrow>
        step env baseURL st (StartTag t attrs) =
          st\<lparr>parentTag := t,
             buffer := buffer st @ ''<'' @ t @
               (if fst (sanitizeAttributes env baseURL t attrs) = [] then []
                else '' '' @ snd (sanitizeAttributes env baseURL t attrs)) @ ''>'',
             tagStack := tagStack st @ [t]\<rparr> \<and>
        step env baseURL st (SelfClosingTag t attrs) =
          st\<lparr>buffer := buffer st @ ''<'' @ t @
               (if fst (sanitizeAttributes env baseURL t attrs) = [] then []
                else '' '' @ snd (sanitizeAttributes env baseURL t attrs)) @ ''/>''\<rparr>)"
proof (intro impI conjI)
  show "hasRequiredAttributes t (fst (sanitizeAttributes env baseURL t attrs)) \<longleftrightarrow>
        (t = ''a'' \<longrightarrow> ''href'' \<in> fst ` set (keptAttributes env baseURL t attrs)) \<and>
        (t = ''iframe'' \<longrightarrow> ''src'' \<in> fst ` set (keptAttributes env baseURL t attrs)) \<and>
        (t = ''img'' \<longrightarrow> ''src'' \<in> fst ` set (keptAttributes env baseURL t attrs)) \<and>
        (t = ''source'' \<longrightarrow>
           ''src'' \<in> fst ` set (keptAttributes env baseURL t attrs) \<or>
           ''srcset'' \<in> fst ` set (keptAttributes env baseURL t attrs))"
    by (rule hasRequiredAttributes_kept)
next
  assume "isValidTag env t"
    and "\<not> hasRequiredAttributes t (fst (sanitizeAttributes env baseURL t attrs))"
  then show "step env baseURL st (StartTag t attrs) = st\<lparr>parentTag := t\<rparr>"
    and "step env baseURL st (SelfClosingTag t attrs) = st"
    by (rule step_StartTag_dropped, rule step_SelfClosingTag_dropped)
next
  assume v: "isValidTag env t"
    and o: "t \<noteq> ''a'' \<and> t \<noteq> ''iframe'' \<and> t \<noteq> ''img'' \<and> t \<noteq> ''source''"
  then have r: "hasRequiredAttributes t (fst (sanitizeAttributes env baseURL t attrs))"
    by (simp add: hasRequiredAttributes_iff)
  from o have i: "t \<noteq> ''iframe''" by simp
  show "step env baseURL st (StartTag t attrs) =
          st\<lparr>parentTag := t,
             buffer := buffer st @ ''<'' @ t @
               (if fst (sanitizeAttributes env baseURL t attrs) = [] then []
                else '' '' @ snd (sanitizeAttributes env baseURL t attrs)) @ ''>'',
             tagStack := tagStack st @ [t]\<rparr>"
    by (rule step_StartTag_kept[OF v i r])
  show "step env baseURL st (SelfClosingTag t attrs) =
          st\<lparr>buffer := buffer st @ ''<'' @ t @
               (if fst (sanitizeAttributes env baseURL t attrs) = [] then []
                else '' '' @ snd (sanitizeAttributes env baseURL t attrs)) @ ''/>''\<rparr>"
    by (rule step_SelfClosingTag_kept[OF v r])
qed

text \<open>
  An \<open>a\<close> without \<open>href\<close> and an \<open>img\<close> whose \<open>src\<close> is refused are dropped, the text
  between is kept, and \<open><p>\<close> is written with no attribute.
\<close>

theorem C6_witness:
  "Sanitize exampleEnv ''https://ex.com''
     [StartTag ''a'' [attr ''title'' ''t''], Text ''l'', EndTag ''a'',
      SelfClosingTag ''img'' [attr ''src'' ''javascript:evil()''], StartTag ''p'' []] EOF
   = ''l<p>''"
proof -
  have va: "isValidTag exampleEnv ''a''" and vi: "isValidTag exampleEnv ''img''"
    and vp: "isValidTag exampleEnv ''p''"
    by (simp_all add: isValidTag_def example_defs)
  have ka: "keptAttributes exampleEnv ''https://ex.com'' ''a'' [attr ''title'' ''t''] = [(''title'', ''t'')]"
    by (simp add: keptAttributes_def map_filter_simps sanitize_defs example_defs)
  have ki: "keptAttributes exampleEnv ''https://ex.com'' ''img'' [attr ''src'' ''javascript:evil()''] = []"
    by (simp add: keptAttributes_def map_filter_simps sanitize_defs example_defs)
  have sa: "step exampleEnv ''https://ex.com'' st (StartTag ''a'' [attr ''title'' ''t'']) =
              st\<lparr>parentTag := ''a''\<rparr>" for st
    using C6_required_attributes[of exampleEnv "''a''" "''https://ex.com''" "[attr ''title'' ''t'']" st] va
    by (simp add: ka)
  have si: "step exampleEnv ''https://ex.com'' st
              (SelfClosingTag ''img'' [attr ''src'' ''javascript:evil()'']) = st" for st
    using C6_required_attributes[of exampleEnv "''img''" "''https://ex.com''"
        "[attr ''src'' ''javascript:evil()'']" st] vi
    by (simp add: ki)
  have pa: "sanitizeAttributes exampleEnv ''https://ex.com'' ''p'' [] = ([], [])"
    by (simp add: sanitize_defs)
  have sp: "step exampleEnv ''https://ex.com'' st (StartTag ''p'' []) =
              st\<lparr>parentTag := ''p'', buffer := buffer st @ ''<p>'', tagStack := tagStack st @ [''p'']\<rparr>" for st
    using C6_required_attributes[of exampleEnv "''p''" "''https://ex.com''" "[]" st] vp
    by (simp add: pa)
  have st: "step exampleEnv ''https://ex.com'' st (Text ''l'') =
              st\<lparr>buffer := buffer st @ ''l''\<rparr>"
    if "blacklistedTagDepth st = 0" "parentTag st = ''a''" for st
    using that by (simp add: sanitize_defs Text_def)
  have se: "step exampleEnv ''https://ex.com'' st (EndTag ''a'') = st"
    if "tagStack st = []" for st
    using that by (simp add: sanitize_defs EndTag_def)
  show ?thesis
    by (simp add: Sanitize_EOF run_Cons run_Nil sa si sp st se initState_def)
qed

subsection \<open>No blocked tag in the output\<close>































subsection \<open>The values of the external resource attributes\<close>






subsection \<open>The srcset attribute\<close>

lemma splitByte_unfold:
  "splitByte sep cur s =
     (cur @ takeWhile (\<lambda>x. x \<noteq> sep) s) #
     (case dropWhile (\<lambda>x. x \<noteq> sep) s of [] \<Rightarrow> [] | _ # rest \<Rightarrow> splitByte sep [] rest)"
  by (induction s arbitrary: cur) auto

lemma Split_unfold:
  "Split s sep =
     takeWhile (\<lambda>x. x \<noteq> sep) s #
     (case dropWhile (\<lambda>x. x \<noteq> sep) s of [] \<Rightarrow> [] | _ # rest \<Rightarrow> Split rest sep)"
  unfolding Split_def by (subst splitByte_unfold) simp

lemma Split_Nil:
  assumes "dropWhile (\<lambda>x. x \<noteq> sep) s = []"
  shows "Split s sep = [takeWhile (\<lambda>x. x \<noteq> sep) s]"
  by (subst Split_unfold) (simp only: assms list.case)

lemma Split_Cons:
  assumes "dropWhile (\<lambda>x. x \<noteq> sep) s = x # rest"
  shows "Split s sep = takeWhile (\<lambda>x. x \<noteq> sep) s # Split rest sep"
  by (subst Split_unfold) (simp only: assms list.case)

lemma Split_not_Nil: "Split s sep \<noteq> []"
  by (subst Split_unfold) simp

lemma Split_no_sep:
  assumes "sep \<notin> set s"
  shows "Split s sep = [s]"
proof -
  from assms have d: "dropWhile (\<lambda>x. x \<noteq> sep) s = []" by auto
  from assms have t: "takeWhile (\<lambda>x. x \<noteq> sep) s = s" by auto
  from Split_Nil[OF d] show ?thesis by (simp only: t)
qed

lemma Split_single: "length (Split s sep) = Suc 0 \<longleftrightarrow> sep \<notin> set s"
proof
  assume l: "length (Split s sep) = Suc 0"
  show "sep \<notin> set s"
  proof (cases "dropWhile (\<lambda>x. x \<noteq> sep) s")
    case Nil
    then show ?thesis by auto
  next
    case (Cons x rest)
    from Split_Cons[OF this] l Split_not_Nil[of rest sep] show ?thesis by simp
  qed
next
  assume "sep \<notin> set s"
  then show "length (Split s sep) = Suc 0" by (simp add: Split_no_sep)
qed

lemma descriptor_with_space:
  assumes "\<forall>s. ParseFloatOk env s \<longrightarrow> CHR '' '' \<notin> set s" and "CHR '' '' \<in> set d"
  shows "\<not> descriptorKept env d"
proof
  assume k: "descriptorKept env d"
  then have "d \<noteq> []" "last d \<noteq> CHR '' ''" "ParseFloatOk env (butlast d)"
    by (auto simp: descriptorKept_def)
  from \<open>d \<noteq> []\<close> have "set d = insert (last d) (set (butlast d))"
    by (metis append_butlast_last_id list.simps(15) rotate1.simps(2) set_rotate1)
  with assms(2) \<open>last d \<noteq> CHR '' ''\<close> have "CHR '' '' \<in> set (butlast d)" by auto
  with assms(1) \<open>ParseFloatOk env (butlast d)\<close> show False by blast
qed

lemma sanitizeSource_spec:
  assumes "\<forall>s. ParseFloatOk env s \<longrightarrow> CHR '' '' \<notin> set s"
  shows "sanitizeSource env baseURL rawSource = candidateSpec env baseURL rawSource"
proof -
  let ?c = "TrimSpace rawSource"
  let ?url = "takeWhile (\<lambda>x. x \<noteq> CHR '' '') ?c"
  show ?thesis
  proof (cases "dropWhile (\<lambda>x. x \<noteq> CHR '' '') ?c")
    case Nil
    then have "Split ?c CHR '' '' = [?url]"
      by (rule Split_Nil)
    then show ?thesis
      by (simp add: sanitizeSource_def candidateSpec_def Let_def Nil
          del: dropWhile_eq_Nil_conv)
  next
    case (Cons x d)
    then have s: "Split ?c CHR '' '' = ?url # Split d CHR '' ''"
      by (rule Split_Cons)
    show ?thesis
    proof (cases "CHR '' '' \<in> set d")
      case True
      then have "length (Split d CHR '' '') \<noteq> Suc 0" by (simp add: Split_single)
      moreover have "\<not> descriptorKept env d"
        by (rule descriptor_with_space[OF assms True])
      ultimately show ?thesis
        by (simp add: sanitizeSource_def candidateSpec_def Let_def Cons s)
    next
      case False
      then have "Split d CHR '' '' = [d]" by (rule Split_no_sep)
      then show ?thesis
        by (auto simp add: sanitizeSource_def candidateSpec_def Let_def descriptorKept_def
            isValidWidthOrDensityDescriptor_def Cons s)
    qed
  qed
qed

lemma srcsetLoop_map_filter:
  "srcsetLoop env baseURL sanitizedSources rawSources =
     sanitizedSources @ List.map_filter (sanitizeSource env baseURL) rawSources"
  by (induction rawSources arbitrary: sanitizedSources) (auto split: option.splits)

text \<open>
  Claim C7. \<open>sanitizeSrcsetAttr\<close>, which cuts each candidate at every space and looks at
  the second part only when there are exactly two, computes what the specification
  describes: the URL part up to the first space, kept as it is when it starts with
  \<open>data:\<close> and resolved otherwise (the candidate is dropped when the result is empty);
  the rest as descriptor, kept exactly when it is not empty, ends in \<open>w\<close> or \<open>x\<close> and
  has a float before that; the survivors joined with a comma and a space. The two agree
  because no float contains a space, which is all the theorem asks of \<open>ParseFloatOk\<close>.
\<close>

theorem C7_srcset_rewriting:
  assumes "\<forall>s. ParseFloatOk env s \<longrightarrow> CHR '' '' \<notin> set s"
  shows "sanitizeSrcsetAttr env baseURL v = srcsetSpec env baseURL v"
proof -
  have "sanitizeSource env baseURL = candidateSpec env baseURL"
    using sanitizeSource_spec[OF assms] by blast
  then show ?thesis
    by (simp add: sanitizeSrcsetAttr_def srcsetSpec_def srcsetLoop_map_filter)
qed


lemma example_float_no_space: "\<forall>s. ParseFloatOk exampleEnv s \<longrightarrow> CHR '' '' \<notin> set s"
  by (auto simp: exampleEnv_def exampleParseFloatOk_def list_all_iff isDigit_def)

lemmas srcset_defs = srcsetSpec_def candidateSpec_def descriptorKept_def TrimSpace_def
  runeLen_def spaceRunes_def isRegexSpace_def Let_def

text \<open>
  The example of the specification, and a value with a failing URL, a \<open>data:\<close> URL and
  descriptors that are dropped.
\<close>

theorem C7_witness:
  "sanitizeSrcsetAttr exampleEnv ''https://ex.com'' ''a.jpg 1x, bad, b.jpg 2x'' =
     ''https://ex.com/a.jpg 1x, https://ex.com/bad, https://ex.com/b.jpg 2x'' \<and>
   sanitizeSrcsetAttr exampleEnv ''https://ex.com''
     ''  a.jpg  1x,  :bad,b.jpg 2x,   data:foo 100w, c.png 1.5.2x '' =
     ''https://ex.com/a.jpg, data:foo 100w, https://ex.com/c.png''"
  using C7_srcset_rewriting[OF example_float_no_space]
  by (simp add: srcset_defs example_defs)

subsection \<open>Sanitizing twice\<close>

lemma step_StartTag_a_without_attributes:
  "step env baseURL st (StartTag ''a'' []) = st\<lparr>parentTag := ''a''\<rparr>"
proof (cases "isValidTag env ''a''")
  case True
  have "keptAttributes env baseURL ''a'' [] = []"
    by (simp add: keptAttributes_def)
  then have "\<not> hasRequiredAttributes ''a'' (fst (sanitizeAttributes env baseURL ''a'' []))"
    by (simp add: hasRequiredAttributes_kept)
  with True show ?thesis by (rule step_StartTag_dropped)
next
  case False
  then show ?thesis
    by (simp add: step_def StartTag_def onStartTagToken_def Let_def isBlockedTag_def)
qed

lemma step_StartTag_iframe_state:
  "tagStack (step env baseURL st (StartTag ''iframe'' attrs)) = tagStack st"
  "blacklistedTagDepth (step env baseURL st (StartTag ''iframe'' attrs)) = blacklistedTagDepth st"
  "parentTag (step env baseURL st (StartTag ''iframe'' attrs)) = ''iframe''"
  by (simp_all add: step_StartTag_iframe)

text \<open>
  For every table and every base URL: text that follows an iframe inside an \<open>a\<close> element
  without attributes is written after the iframe, because the start tag \<open>a\<close>, though
  dropped, is the most recent tag when the text comes.
\<close>

lemma text_in_dropped_a_after_iframe:
  "Sanitize env baseURL
     [StartTag ''iframe'' attrs, EndTag ''iframe'', StartTag ''a'' [], Text s, EndTag ''a''] EOF =
   Sanitize env baseURL [StartTag ''iframe'' attrs] EOF @ EscapeString s"
proof -
  let ?st = "step env baseURL initState (StartTag ''iframe'' attrs)"
  have i: "tagStack ?st = []" "blacklistedTagDepth ?st = 0"
    by (simp_all add: step_StartTag_iframe_state initState_def)
  have e: "step env baseURL ?st (EndTag ''iframe'') = ?st"
    by (rule step_EndTag_iframe) (simp_all add: EndTag_def)
  have t: "step env baseURL (?st\<lparr>parentTag := ''a''\<rparr>) (Text s) =
             ?st\<lparr>parentTag := ''a'', buffer := buffer ?st @ EscapeString s\<rparr>"
    using i by (simp add: step_def Text_def onTextToken_def)
  have c: "step env baseURL (?st\<lparr>parentTag := ''a'', buffer := buffer ?st @ EscapeString s\<rparr>)
             (EndTag ''a'') =
           ?st\<lparr>parentTag := ''a'', buffer := buffer ?st @ EscapeString s\<rparr>"
    using i by (simp add: step_def EndTag_def onEndTagToken_def inList_def isBlockedTag_def)
  show ?thesis
    by (simp add: Sanitize_EOF run_Cons run_Nil e step_StartTag_a_without_attributes t c)
qed

text \<open>
  For every table and every base URL: text that stands right after the end tag of an
  iframe, as it does in the output above, is dropped.
\<close>

lemma text_right_after_iframe:
  "Sanitize env baseURL [StartTag ''iframe'' attrs, EndTag ''iframe'', Text s] EOF =
   Sanitize env baseURL [StartTag ''iframe'' attrs] EOF"
proof -
  have "run env baseURL initState (StartTag ''iframe'' attrs # [EndTag ''iframe'', Text s]) =
        run env baseURL initState
          (StartTag ''iframe'' attrs #
           filter (\<lambda>tok. Type tok \<noteq> TextToken) [EndTag ''iframe'', Text s])"
    unfolding run_Cons[of env baseURL initState "StartTag ''iframe'' attrs"]
    by (rule run_without_text) (simp_all add: step_StartTag_iframe_state EndTag_def Text_def)
  moreover have "step env baseURL st (EndTag ''iframe'') = st" for st
    by (rule step_EndTag_iframe) (simp_all add: EndTag_def)
  ultimately show ?thesis
    by (simp add: Sanitize_EOF run_Cons run_Nil EndTag_def Text_def)
qed

text \<open>
  Claim C8. Sanitizing is not idempotent. The input
  \<open><iframe src="https://bandcamp.com/e"></iframe><a>hello</a>\<close> is read as the five
  tokens of the first run, which writes the iframe and then the text. In that output
  the text stands right after \<open></iframe>\<close>, so the output is read as the three tokens of
  the second run (the iframe now with the attributes the first run wrote), and the
  second run drops the text: text after the end tag of an iframe is suppressed like
  the content of the iframe, until the next start tag.
\<close>

theorem C8_second_run_drops_text:
  \<open>Sanitize exampleEnv ''https://ex.com''
      [StartTag ''iframe'' [attr ''src'' ''https://bandcamp.com/e''], EndTag ''iframe'',
       StartTag ''a'' [], Text ''hello'', EndTag ''a''] EOF =
      ''<iframe src="https://bandcamp.com/e" sandbox="allow-scripts allow-same-origin allow-popups" loading="lazy"></iframe>hello'' \<and>
   Sanitize exampleEnv ''https://ex.com''
      [StartTag ''iframe'' [attr ''src'' ''https://bandcamp.com/e'',
              attr ''sandbox'' ''allow-scripts allow-same-origin allow-popups'',
              attr ''loading'' ''lazy''], EndTag ''iframe'', Text ''hello''] EOF =
      ''<iframe src="https://bandcamp.com/e" sandbox="allow-scripts allow-same-origin allow-popups" loading="lazy"></iframe>''\<close>
  by (simp add: sanitize_defs example_defs)

end
